theory Spec2Isabelle
  imports Main "HOL-Library.AList" "HOL-Library.Sublist"
begin

section \<open>Python strings\<close>

text \<open>
  Strings are character lists. \<open>endswith\<close>, \<open>join\<close> and \<open>str\<close> on integers are the
  Python built-ins the handlers of \<^verbatim>\<open>main.py\<close> use in their f-strings.
\<close>

definition endswith :: "string \<Rightarrow> string \<Rightarrow> bool" where
  "endswith s suf = (length suf \<le> length s \<and> drop (length s - length suf) s = suf)"

fun join :: "string \<Rightarrow> string list \<Rightarrow> string" where
  "join sep [] = []"
| "join sep [x] = x"
| "join sep (x # y # ys) = x @ sep @ join sep (y # ys)"

definition digit_char :: "nat \<Rightarrow> char" where
  "digit_char d = ''0123456789'' ! (d mod 10)"

fun str_nat :: "nat \<Rightarrow> string" where
  "str_nat n = (if n < 10 then [digit_char n] else str_nat (n div 10) @ [digit_char (n mod 10)])"

declare str_nat.simps [simp del]

definition str_int :: "int \<Rightarrow> string" where
  "str_int i = (if i < 0 then CHR ''-'' # str_nat (nat (- i)) else str_nat (nat i))"

text \<open>A filename between single quotes, as in \<^verbatim>\<open>f"'{filename}'"\<close>.\<close>

definition quoted :: "string \<Rightarrow> string" where
  "quoted s = CHR 0x27 # s @ [CHR 0x27]"

definition newline :: string where
  "newline = [CHR 0x0A]"

section \<open>Paths and the file system\<close>

text \<open>
  A path is the list of its components below the root; \<^verbatim>\<open>DATA_DIR\<close> is absolute, and so
  is every path the handlers build from it. \<open>split_on\<close> cuts a string at a separator.
  \<open>path_join\<close> is pathlib's \<^verbatim>\<open>DATA_DIR / filename\<close> on POSIX: empty and \<^verbatim>\<open>.\<close> components
  of the right operand are dropped, \<^verbatim>\<open>..\<close> components are kept as they are, and a right
  operand that starts with a slash replaces the left one.
\<close>

fun split_on :: "char \<Rightarrow> string \<Rightarrow> string list" where
  "split_on c [] = [[]]"
| "split_on c (x # xs) =
     (if x = c then [] # split_on c xs
      else (case split_on c xs of
              [] \<Rightarrow> [[x]]
            | w # ws \<Rightarrow> (x # w) # ws))"

definition path_parts :: "string \<Rightarrow> string list" where
  "path_parts s = filter (\<lambda>p. p \<noteq> [] \<and> p \<noteq> ''.'') (split_on CHR ''/'' s)"

definition is_absolute :: "string \<Rightarrow> bool" where
  "is_absolute s = (case s of [] \<Rightarrow> False | c # _ \<Rightarrow> c = CHR ''/'')"

definition path_join :: "string list \<Rightarrow> string \<Rightarrow> string list" where
  "path_join base filename =
     (if is_absolute filename then path_parts filename else base @ path_parts filename)"

text \<open>
  The file system is a finite table from locations (resolved absolute paths) to nodes;
  the order of the table is the order in which a directory scan yields its entries.
  The root is always a directory. There are no symbolic links, no permissions and no
  limit on the length of a name, so looking a path up fails only where a component is
  missing or is not a directory.
\<close>

datatype node = Dir | File string

type_synonym loc = "string list"
type_synonym filesystem = "(loc \<times> node) list"

datatype exn =
    FileNotFoundError
  | NotADirectoryError
  | IsADirectoryError
  | LibraryError string

definition str_exn :: "exn \<Rightarrow> string" where
  "str_exn e = (case e of
       FileNotFoundError \<Rightarrow> ''[Errno 2] No such file or directory''
     | NotADirectoryError \<Rightarrow> ''[Errno 20] Not a directory''
     | IsADirectoryError \<Rightarrow> ''[Errno 21] Is a directory''
     | LibraryError m \<Rightarrow> m)"

definition node_at :: "filesystem \<Rightarrow> loc \<Rightarrow> node option" where
  "node_at fs l = (if l = [] then Some Dir else map_of fs l)"

text \<open>
  \<open>walk\<close> is the kernel's path resolution: every component is looked up in the directory
  reached so far, and \<^verbatim>\<open>..\<close> steps to the parent (the root is its own parent).
\<close>

fun walk :: "filesystem \<Rightarrow> loc \<Rightarrow> string list \<Rightarrow> exn + loc" where
  "walk fs cur [] = Inr cur"
| "walk fs cur (c # cs) =
     (case node_at fs cur of
        None \<Rightarrow> Inl FileNotFoundError
      | Some (File _) \<Rightarrow> Inl NotADirectoryError
      | Some Dir \<Rightarrow> walk fs (if c = ''..'' then butlast cur else cur @ [c]) cs)"

definition resolve :: "filesystem \<Rightarrow> string list \<Rightarrow> exn + loc" where
  "resolve fs p = walk fs [] p"

text \<open>
  \<^verbatim>\<open>Path.exists()\<close> stats the path and answers \<^verbatim>\<open>False\<close> on a missing component.
\<close>

definition path_exists :: "filesystem \<Rightarrow> string list \<Rightarrow> bool" where
  "path_exists fs p =
     (case resolve fs p of
        Inl _ \<Rightarrow> False
      | Inr l \<Rightarrow> node_at fs l \<noteq> None)"

definition is_file :: "filesystem \<Rightarrow> string list \<Rightarrow> bool" where
  "is_file fs p =
     (case resolve fs p of
        Inl _ \<Rightarrow> False
      | Inr l \<Rightarrow> (case node_at fs l of Some (File _) \<Rightarrow> True | _ \<Rightarrow> False))"

definition open_read :: "filesystem \<Rightarrow> string list \<Rightarrow> exn + string" where
  "open_read fs p =
     (case resolve fs p of
        Inl e \<Rightarrow> Inl e
      | Inr l \<Rightarrow>
          (case node_at fs l of
             None \<Rightarrow> Inl FileNotFoundError
           | Some Dir \<Rightarrow> Inl IsADirectoryError
           | Some (File c) \<Rightarrow> Inr c))"

text \<open>
  Opening for writing creates the file or truncates it; its directory must exist, and
  nothing creates a missing parent directory.
\<close>

definition open_write :: "filesystem \<Rightarrow> string list \<Rightarrow> string \<Rightarrow> exn + filesystem" where
  "open_write fs p content =
     (case resolve fs p of
        Inl e \<Rightarrow> Inl e
      | Inr l \<Rightarrow>
          (case node_at fs l of
             Some Dir \<Rightarrow> Inl IsADirectoryError
           | _ \<Rightarrow>
               (if node_at fs (butlast l) = Some Dir
                then Inr (AList.update l (File content) fs)
                else Inl FileNotFoundError)))"

text \<open>
  \<^verbatim>\<open>Path.glob("*")\<close>: the entries of a directory, as paths below it, in scan order;
  nothing when the path is not a directory.
\<close>

definition glob_star :: "filesystem \<Rightarrow> string list \<Rightarrow> string list list" where
  "glob_star fs d =
     (case resolve fs d of
        Inl _ \<Rightarrow> []
      | Inr l \<Rightarrow>
          (if node_at fs l = Some Dir
           then map (\<lambda>(k, n). d @ [last k])
                  (filter (\<lambda>(k, n). k \<noteq> [] \<and> butlast k = l) (AList.clearjunk fs))
           else []))"

definition path_name :: "string list \<Rightarrow> string" where
  "path_name p = (if p = [] then [] else last p)"

section \<open>The dataframe library\<close>

text \<open>
  A dataframe has named columns and rows of cells. The parsers and renderers of the
  dataframe library are not part of this program: they are a parameter of every handler.
  A reader gets the bytes of a file and returns a frame or raises. A writer turns a
  frame into bytes and does not fail (a parquet engine is installed); what can fail in a
  write is opening the target.
\<close>

datatype cell = IntCell int | StrCell string

record dataframe =
  columns :: "string list"
  body :: "cell list list"

record pandas =
  read_csv :: "string \<Rightarrow> exn + dataframe"
  read_parquet :: "string \<Rightarrow> exn + dataframe"
  to_csv :: "dataframe \<Rightarrow> string"
  to_parquet :: "dataframe \<Rightarrow> string"
  describe_to_string :: "dataframe \<Rightarrow> exn + string"
  head_to_string :: "dataframe \<Rightarrow> exn + string"
  dtypes_to_string :: "dataframe \<Rightarrow> exn + string"
  repr_columns :: "string list \<Rightarrow> string"

definition pd_read_csv :: "pandas \<Rightarrow> filesystem \<Rightarrow> string list \<Rightarrow> exn + dataframe" where
  "pd_read_csv lib fs p = (case open_read fs p of Inl e \<Rightarrow> Inl e | Inr c \<Rightarrow> read_csv lib c)"

definition pd_read_parquet :: "pandas \<Rightarrow> filesystem \<Rightarrow> string list \<Rightarrow> exn + dataframe" where
  "pd_read_parquet lib fs p =
     (case open_read fs p of Inl e \<Rightarrow> Inl e | Inr c \<Rightarrow> read_parquet lib c)"

section \<open>The server state\<close>

text \<open>
  The state a handler runs in: the directory of the script (resolved at start-up), the
  file system, the random generator (a sequence of raw draws and the position in it) and
  the calendar (\<open>date_ago k\<close> is the year, month and day \<open>k\<close> days before now).
\<close>

record world =
  script_dir :: loc
  files :: filesystem
  rng :: "nat \<Rightarrow> nat"
  rng_pos :: nat
  date_ago :: "nat \<Rightarrow> nat \<times> nat \<times> nat"

definition DATA_DIR :: "world \<Rightarrow> string list" where
  "DATA_DIR w = script_dir w @ [''data'']"

section \<open>Summaries\<close>

text \<open>
  A handler returns \<open>Inr\<close> of its result string; \<open>Inl\<close> is an exception that leaves the
  handler. The existence test is outside the \<^verbatim>\<open>try\<close> block, the load inside.
\<close>

definition read_csv_summary :: "pandas \<Rightarrow> world \<Rightarrow> string \<Rightarrow> exn + string" where
  "read_csv_summary lib w filename =
     (let file_path = path_join (DATA_DIR w) filename in
      if \<not> path_exists (files w) file_path
      then Inr (''Error: File '' @ quoted filename @ '' not found in data directory.'')
      else (case pd_read_csv lib (files w) file_path of
              Inr df \<Rightarrow>
                (let columns_info = join '', '' (columns df) in
                 Inr (''CSV file '' @ quoted filename @ '' has '' @ str_nat (length (body df))
                      @ '' rows and '' @ str_nat (length (columns df))
                      @ '' columns. Columns: '' @ columns_info))
            | Inl e \<Rightarrow>
                Inr (''Error reading CSV file '' @ quoted filename @ '': '' @ str_exn e)))"

definition read_parquet_summary :: "pandas \<Rightarrow> world \<Rightarrow> string \<Rightarrow> exn + string" where
  "read_parquet_summary lib w filename =
     (let file_path = path_join (DATA_DIR w) filename in
      if \<not> path_exists (files w) file_path
      then Inr (''Error: File '' @ quoted filename @ '' not found in data directory.'')
      else (case pd_read_parquet lib (files w) file_path of
              Inr df \<Rightarrow>
                (let columns_info = join '', '' (columns df) in
                 Inr (''Parquet file '' @ quoted filename @ '' has '' @ str_nat (length (body df))
                      @ '' rows and '' @ str_nat (length (columns df))
                      @ '' columns. Columns: '' @ columns_info))
            | Inl e \<Rightarrow>
                Inr (''Error reading Parquet file '' @ quoted filename @ '': '' @ str_exn e)))"

definition summarize_csv_file :: "pandas \<Rightarrow> world \<Rightarrow> string \<Rightarrow> exn + string" where
  "summarize_csv_file lib w filename = read_csv_summary lib w filename"

definition summarize_parquet_file :: "pandas \<Rightarrow> world \<Rightarrow> string \<Rightarrow> exn + string" where
  "summarize_parquet_file lib w filename = read_parquet_summary lib w filename"

section \<open>Listing\<close>

text \<open>
  The emptiness test is on everything the scan yields; only then are the entries
  filtered down to regular files.
\<close>

definition list_data_files :: "world \<Rightarrow> exn + string" where
  "list_data_files w =
     (let fl = glob_star (files w) (DATA_DIR w) in
      if fl = [] then Inr ''No data files found in the data directory.''
      else (let file_list = map path_name (filter (is_file (files w)) fl) in
            Inr (''Available data files: '' @ join '', '' file_list)))"

section \<open>Analysis\<close>

definition shape_str :: "dataframe \<Rightarrow> string" where
  "shape_str df =
     ''('' @ str_nat (length (body df)) @ '', '' @ str_nat (length (columns df)) @ '')''"

text \<open>The body of the \<^verbatim>\<open>try\<close> block: the load, then the branch on the operation.\<close>

definition analyze_try ::
  "pandas \<Rightarrow> filesystem \<Rightarrow> string list \<Rightarrow> string \<Rightarrow> string \<Rightarrow> exn + string" where
  "analyze_try lib fs file_path filename operation =
     (case pd_read_csv lib fs file_path of
        Inl e \<Rightarrow> Inl e
      | Inr df \<Rightarrow>
          (if operation = ''describe'' then
             (case describe_to_string lib df of
                Inl e \<Rightarrow> Inl e
              | Inr s \<Rightarrow> Inr (''Statistical description of '' @ filename @ '':'' @ newline @ s))
           else if operation = ''head'' then
             (case head_to_string lib df of
                Inl e \<Rightarrow> Inl e
              | Inr s \<Rightarrow> Inr (''First 5 rows of '' @ filename @ '':'' @ newline @ s))
           else if operation = ''info'' then
             (case dtypes_to_string lib df of
                Inl e \<Rightarrow> Inl e
              | Inr s \<Rightarrow>
                  Inr (''Info for '' @ filename @ '':'' @ newline
                       @ ''Shape: '' @ shape_str df @ newline
                       @ ''Columns: '' @ repr_columns lib (columns df) @ newline
                       @ ''Data types:'' @ newline @ s))
           else if operation = ''columns'' then
             Inr (''Columns in '' @ filename @ '': '' @ join '', '' (columns df))
           else
             Inr (''Unknown operation: '' @ operation
                  @ ''. Available: describe, head, info, columns'')))"

definition analyze_csv_data :: "pandas \<Rightarrow> world \<Rightarrow> string \<Rightarrow> string \<Rightarrow> exn + string" where
  "analyze_csv_data lib w filename operation =
     (let file_path = path_join (DATA_DIR w) filename in
      if \<not> path_exists (files w) file_path
      then Inr (''Error: File '' @ quoted filename @ '' not found.'')
      else (case analyze_try lib (files w) file_path filename operation of
              Inr s \<Rightarrow> Inr s
            | Inl e \<Rightarrow> Inr (''Error analyzing '' @ filename @ '': '' @ str_exn e)))"

section \<open>Sample data\<close>

definition randint :: "nat \<Rightarrow> nat \<Rightarrow> nat \<Rightarrow> nat" where
  "randint a b raw = a + raw mod (b - a + 1)"

definition choice :: "'a list \<Rightarrow> nat \<Rightarrow> 'a" where
  "choice xs raw = xs ! (raw mod length xs)"

definition zero_pad :: "nat \<Rightarrow> string \<Rightarrow> string" where
  "zero_pad n s = replicate (n - length s) CHR ''0'' @ s"

definition strftime_ymd :: "nat \<times> nat \<times> nat \<Rightarrow> string" where
  "strftime_ymd ymd =
     (case ymd of (y, m, d) \<Rightarrow>
        zero_pad 4 (str_nat y) @ ''-'' @ zero_pad 2 (str_nat m) @ ''-'' @ zero_pad 2 (str_nat d))"

text \<open>
  The dictionary of columns, in the order it is written. \<^verbatim>\<open>range(1, rows + 1)\<close> and
  \<^verbatim>\<open>range(rows)\<close> are empty for \<open>rows \<le> 0\<close>. The three random columns are drawn one
  after the other: all scores, then all categories, then all day offsets.
\<close>

definition sample_data :: "world \<Rightarrow> int \<Rightarrow> (string \<times> cell list) list" where
  "sample_data w rows =
     (let k = nat rows; p = rng_pos w in
      [(''id'', map (\<lambda>i. IntCell (int i)) [1..<k + 1]),
       (''name'', map (\<lambda>i. StrCell (''User_'' @ str_nat i)) [1..<k + 1]),
       (''score'', map (\<lambda>j. IntCell (int (randint 1 100 (rng w (p + j))))) [0..<k]),
       (''category'', map (\<lambda>j. StrCell (choice [''A'', ''B'', ''C''] (rng w (p + k + j)))) [0..<k]),
       (''created_date'',
          map (\<lambda>j. StrCell (strftime_ymd (date_ago w (randint 1 365 (rng w (p + 2 * k + j))))))
            [0..<k])])"

text \<open>\<^verbatim>\<open>pd.DataFrame(dict)\<close>: the columns must have one length.\<close>

definition DataFrame :: "(string \<times> cell list) list \<Rightarrow> exn + dataframe" where
  "DataFrame data =
     (let n = (case data of [] \<Rightarrow> 0 | (_, c) # _ \<Rightarrow> length c) in
      if list_all (\<lambda>(_, c). length c = n) data
      then Inr \<lparr>columns = map fst data,
                body = map (\<lambda>i. map (\<lambda>(_, c). c ! i) data) [0..<n]\<rparr>
      else Inl (LibraryError ''All arrays must be of the same length''))"

text \<open>
  The body of the \<^verbatim>\<open>try\<close> block of \<^verbatim>\<open>create_sample_data\<close>: the table is built first,
  the suffix of the filename is tested after, and nothing tests whether the target exists.
\<close>

definition create_try :: "pandas \<Rightarrow> world \<Rightarrow> string \<Rightarrow> int \<Rightarrow> exn + string \<times> filesystem" where
  "create_try lib w filename rows =
     (case DataFrame (sample_data w rows) of
        Inl e \<Rightarrow> Inl e
      | Inr df \<Rightarrow>
          (let file_path = path_join (DATA_DIR w) filename;
               created = ''Created '' @ filename @ '' with '' @ str_int rows @ '' rows and ''
                         @ str_nat (length (columns df)) @ '' columns.''
           in
           if endswith filename ''.csv'' then
             (case open_write (files w) file_path (to_csv lib df) of
                Inl e \<Rightarrow> Inl e
              | Inr fs' \<Rightarrow> Inr (created, fs'))
           else if endswith filename ''.parquet'' then
             (case open_write (files w) file_path (to_parquet lib df) of
                Inl e \<Rightarrow> Inl e
              | Inr fs' \<Rightarrow> Inr (created, fs'))
           else Inr (''Error: Filename must end with .csv or .parquet'', files w)))"

definition create_sample_data ::
  "pandas \<Rightarrow> world \<Rightarrow> string \<Rightarrow> int \<Rightarrow> (exn + string) \<times> world" where
  "create_sample_data lib w filename rows =
     (let w1 = w\<lparr>rng_pos := rng_pos w + 3 * nat rows\<rparr> in
      case create_try lib w filename rows of
        Inr (s, fs') \<Rightarrow> (Inr s, w1\<lparr>files := fs'\<rparr>)
      | Inl e \<Rightarrow> (Inr (''Error creating sample data: '' @ str_exn e), w1))"

section \<open>The schema resource\<close>

datatype json = JString string | JArray "json list" | JObject "(string \<times> json) list"

text \<open>
  \<^verbatim>\<open>json.dumps(obj, indent=2)\<close> for strings, lists and dictionaries: one item a line,
  two more spaces at each level, \<^verbatim>\<open>,\<close> between items and \<^verbatim>\<open>: \<close> after a key. Only the
  double quote and the backslash are escaped.
\<close>

definition json_escape :: "string \<Rightarrow> string" where
  "json_escape s =
     concat (map (\<lambda>c. if c = CHR 0x22 \<or> c = CHR 0x5C then [CHR 0x5C, c] else [c]) s)"

definition json_string :: "string \<Rightarrow> string" where
  "json_string s = CHR 0x22 # json_escape s @ [CHR 0x22]"

definition indent_of :: "nat \<Rightarrow> string" where
  "indent_of lvl = replicate (2 * lvl) CHR '' ''"

fun dumps :: "nat \<Rightarrow> json \<Rightarrow> string"
  and dumps_items :: "nat \<Rightarrow> json list \<Rightarrow> string list"
  and dumps_members :: "nat \<Rightarrow> (string \<times> json) list \<Rightarrow> string list" where
  "dumps lvl (JString s) = json_string s"
| "dumps lvl (JArray xs) =
     (if xs = [] then ''[]''
      else ''['' @ newline @ indent_of (lvl + 1)
           @ join ('','' @ newline @ indent_of (lvl + 1)) (dumps_items (lvl + 1) xs)
           @ newline @ indent_of lvl @ '']'')"
| "dumps lvl (JObject kvs) =
     (if kvs = [] then ''{}''
      else ''{'' @ newline @ indent_of (lvl + 1)
           @ join ('','' @ newline @ indent_of (lvl + 1)) (dumps_members (lvl + 1) kvs)
           @ newline @ indent_of lvl @ ''}'')"
| "dumps_items lvl [] = []"
| "dumps_items lvl (x # xs) = dumps lvl x # dumps_items lvl xs"
| "dumps_members lvl [] = []"
| "dumps_members lvl ((k, v) # kvs) = (json_string k @ '': '' @ dumps lvl v) # dumps_members lvl kvs"

definition schema_info :: json where
  "schema_info = JObject
     [(''description'', JString ''Schema information for data files''),
      (''supported_formats'', JArray [JString ''CSV'', JString ''Parquet'']),
      (''sample_structure'', JObject
         [(''id'', JString ''integer - unique identifier''),
          (''name'', JString ''string - user name''),
          (''email'', JString ''string - email address''),
          (''signup_date'', JString ''date - registration date'')])]"

definition get_data_schema :: string where
  "get_data_schema = dumps 0 schema_info"

section \<open>Registration and dispatch\<close>

text \<open>
  The tools and the resource the script registers, with the defaults of their arguments,
  and the server that runs one request after the other on the state.
\<close>

datatype request =
    Call_list_data_files
  | Call_summarize_csv_file string
  | Call_summarize_parquet_file string
  | Call_analyze_csv_data string "string option"
  | Call_create_sample_data string "int option"
  | Read_resource string

definition serve :: "pandas \<Rightarrow> world \<Rightarrow> request \<Rightarrow> (exn + string) \<times> world" where
  "serve lib w req =
     (case req of
        Call_list_data_files \<Rightarrow> (list_data_files w, w)
      | Call_summarize_csv_file filename \<Rightarrow> (summarize_csv_file lib w filename, w)
      | Call_summarize_parquet_file filename \<Rightarrow> (summarize_parquet_file lib w filename, w)
      | Call_analyze_csv_data filename operation \<Rightarrow>
          (analyze_csv_data lib w filename
             (case operation of None \<Rightarrow> ''describe'' | Some op \<Rightarrow> op), w)
      | Call_create_sample_data filename rows \<Rightarrow>
          create_sample_data lib w filename (case rows of None \<Rightarrow> 10 | Some n \<Rightarrow> n)
      | Read_resource uri \<Rightarrow>
          (if uri = ''data://schema'' then Inr get_data_schema
           else Inl (LibraryError (''Unknown resource: '' @ uri)), w))"

fun run :: "pandas \<Rightarrow> world \<Rightarrow> request list \<Rightarrow> world" where
  "run lib w [] = w"
| "run lib w (r # rs) = run lib (snd (serve lib w r)) rs"

section \<open>A small instance to run the handlers on\<close>

text \<open>
  A line-based CSV codec stands in for the dataframe library wherever a handler is run
  on a concrete state, and \<open>demo_world\<close> is such a state: the script lives in
  \<^verbatim>\<open>/srv\<close>, its data directory holds one CSV file and one sub-directory, and a file
  lies beside the data directory.
\<close>

definition cell_str :: "cell \<Rightarrow> string" where
  "cell_str c = (case c of IntCell i \<Rightarrow> str_int i | StrCell s \<Rightarrow> s)"

definition demo_to_csv :: "dataframe \<Rightarrow> string" where
  "demo_to_csv df =
     concat (map (\<lambda>l. l @ newline)
       (join '','' (columns df) # map (\<lambda>r. join '','' (map cell_str r)) (body df)))"

definition demo_read_csv :: "string \<Rightarrow> exn + dataframe" where
  "demo_read_csv s =
     (case filter (\<lambda>l. l \<noteq> []) (split_on CHR 0x0A s) of
        [] \<Rightarrow> Inl (LibraryError ''No columns to parse from file'')
      | h # rs \<Rightarrow>
          Inr \<lparr>columns = split_on CHR '','' h,
               body = map (\<lambda>r. map StrCell (split_on CHR '','' r)) rs\<rparr>)"

definition demo_pandas :: pandas where
  "demo_pandas =
     \<lparr>read_csv = demo_read_csv,
      read_parquet = (\<lambda>s. if take 4 s = ''PAR1'' then demo_read_csv (drop 4 s)
                           else Inl (LibraryError ''Parquet magic bytes not found'')),
      to_csv = demo_to_csv,
      to_parquet = (\<lambda>df. ''PAR1'' @ demo_to_csv df),
      describe_to_string = (\<lambda>df. if columns df = []
                                  then Inl (LibraryError ''Cannot describe a DataFrame without columns'')
                                  else Inr (join ''  '' (columns df))),
      head_to_string = (\<lambda>df. Inr (join ''  '' (columns df))),
      dtypes_to_string = (\<lambda>df. Inr (join newline (columns df))),
      repr_columns = (\<lambda>cs. ''['' @ join '', '' (map quoted cs) @ '']'')\<rparr>"

definition demo_files :: filesystem where
  "demo_files =
     [([''srv''], Dir),
      ([''srv'', ''data''], Dir),
      ([''srv'', ''data'', ''sample.csv''], File (''id,name'' @ newline @ ''1,Alice'' @ newline)),
      ([''srv'', ''data'', ''archive''], Dir),
      ([''srv'', ''secret.csv''], File (''key'' @ newline @ ''hunter2'' @ newline))]"

definition demo_world :: world where
  "demo_world =
     \<lparr>script_dir = [''srv''], files = demo_files, rng = (\<lambda>i. 7 * i + 3), rng_pos = 0,
      date_ago = (\<lambda>k. (2024, 1 + k mod 12, 1 + k mod 28))\<rparr>"

text \<open>The same state with nothing but a sub-directory in the data directory.\<close>

definition dirs_only_world :: world where
  "dirs_only_world =
     demo_world\<lparr>files := [([''srv''], Dir), ([''srv'', ''data''], Dir),
                          ([''srv'', ''data'', ''archive''], Dir)]\<rparr>"

section \<open>Vocabulary of the properties\<close>


definition valid_operations :: "string list" where
  "valid_operations = [''describe'', ''head'', ''info'', ''columns'']"





text \<open>
  The table \<^verbatim>\<open>create_sample_data\<close> generates, row by row: what the constructor makes
  of the dictionary of columns.
\<close>

definition generated_table :: "world \<Rightarrow> int \<Rightarrow> dataframe" where
  "generated_table w rows =
     (let k = nat rows; p = rng_pos w in
      \<lparr>columns = [''id'', ''name'', ''score'', ''category'', ''created_date''],
       body = map (\<lambda>j. [IntCell (int (j + 1)),
                        StrCell (''User_'' @ str_nat (j + 1)),
                        IntCell (int (randint 1 100 (rng w (p + j)))),
                        StrCell (choice [''A'', ''B'', ''C''] (rng w (p + k + j))),
                        StrCell (strftime_ymd (date_ago w (randint 1 365 (rng w (p + 2 * k + j)))))])
                [0..<k]\<rparr>)"

section \<open>The file system: resolution and updates\<close>







section \<open>Missing files\<close>







section \<open>Unknown operations\<close>

text \<open>
  Claim C6. On a file that exists and loads, an operation that is none of the four valid
  ones gets the unknown-operation message, which lists exactly the four valid names;
  the handler returns and does not raise.
\<close>

theorem analyze_unknown_operation:
  assumes "operation \<notin> set valid_operations"
    and "path_exists (files w) (path_join (DATA_DIR w) filename)"
    and "pd_read_csv lib (files w) (path_join (DATA_DIR w) filename) = Inr df"
  shows "analyze_csv_data lib w filename operation
           = Inr (''Unknown operation: '' @ operation @ ''. Available: ''
                  @ join '', '' valid_operations)"
  using assms by (simp add: analyze_csv_data_def analyze_try_def valid_operations_def)

theorem analyze_unknown_operation_witness:
  "''bogus'' \<notin> set valid_operations
   \<and> path_exists (files demo_world) (path_join (DATA_DIR demo_world) ''sample.csv'')
   \<and> (\<exists>df. pd_read_csv demo_pandas (files demo_world)
               (path_join (DATA_DIR demo_world) ''sample.csv'') = Inr df)
   \<and> analyze_csv_data demo_pandas demo_world ''sample.csv'' ''bogus''
       = Inr ''Unknown operation: bogus. Available: describe, head, info, columns''"
proof -
  have a: "''bogus'' \<notin> set valid_operations" by (simp add: valid_operations_def)
  have b: "path_exists (files demo_world) (path_join (DATA_DIR demo_world) ''sample.csv'')"
    by code_simp
  have c: "pd_read_csv demo_pandas (files demo_world)
             (path_join (DATA_DIR demo_world) ''sample.csv'')
           = Inr \<lparr>columns = [''id'', ''name''], body = [[StrCell ''1'', StrCell ''Alice'']]\<rparr>"
    by code_simp
  from analyze_unknown_operation [OF a b c] a b c show ?thesis
    by (simp add: valid_operations_def)
qed

section \<open>The generated table\<close>

lemma range_from_one: "[1..<k + 1] = map Suc [0..<k]"
  by (simp add: map_Suc_upt del: upt_Suc)

text \<open>The columns always have one length, so the constructor never raises here.\<close>

lemma DataFrame_sample_data: "DataFrame (sample_data w rows) = Inr (generated_table w rows)"
  unfolding DataFrame_def sample_data_def generated_table_def Let_def range_from_one
  by (simp del: upt_Suc)



section \<open>Unsupported suffixes\<close>

text \<open>
  Claim C5. A filename that ends neither in \<^verbatim>\<open>.csv\<close> nor in \<^verbatim>\<open>.parquet\<close> gets the
  explicit error string, and the file system after the call is the one before it: nothing
  was written.
\<close>

theorem create_rejects_other_suffix:
  assumes "\<not> endswith filename ''.csv''" and "\<not> endswith filename ''.parquet''"
  shows "fst (create_sample_data lib w filename rows)
           = Inr ''Error: Filename must end with .csv or .parquet''
       \<and> files (snd (create_sample_data lib w filename rows)) = files w"
  using assms
  by (simp add: create_sample_data_def create_try_def DataFrame_sample_data Let_def)

theorem create_rejects_other_suffix_witness:
  "\<not> endswith ''x.txt'' ''.csv'' \<and> \<not> endswith ''x.txt'' ''.parquet''
   \<and> fst (create_sample_data demo_pandas demo_world ''x.txt'' 10)
       = Inr ''Error: Filename must end with .csv or .parquet''
   \<and> files (snd (create_sample_data demo_pandas demo_world ''x.txt'' 10)) = files demo_world"
proof -
  have a: "\<not> endswith ''x.txt'' ''.csv''" by (simp add: endswith_def)
  have b: "\<not> endswith ''x.txt'' ''.parquet''" by (simp add: endswith_def)
  from create_rejects_other_suffix [OF a b, of demo_pandas demo_world 10] a b
  show ?thesis by simp
qed

section \<open>The schema resource\<close>

text \<open>
  Claim C8. Reading \<^verbatim>\<open>data://schema\<close> gives the same string whatever requests were
  served before and whatever the state is: the provider reads nothing but its own
  constant dictionary.
\<close>

theorem schema_resource_stable:
  "fst (serve lib (run lib w reqs) (Read_resource ''data://schema''))
     = fst (serve lib' w' (Read_resource ''data://schema''))
   \<and> fst (serve lib w (Read_resource ''data://schema'')) = Inr get_data_schema"
  by (simp add: serve_def)

section \<open>Failures are results\<close>


section \<open>Listing\<close>

text \<open>
  Claim C4, where the handler departs from it. With only a sub-directory in the data
  directory there is no regular file to list, and yet the scan is not empty: the
  handler answers with an empty list of names and not with the no-files sentence.
\<close>

theorem list_data_files_only_directories:
  "filter (is_file (files dirs_only_world))
     (glob_star (files dirs_only_world) (DATA_DIR dirs_only_world)) = []
   \<and> list_data_files dirs_only_world = Inr ''Available data files: ''
   \<and> list_data_files dirs_only_world \<noteq> Inr ''No data files found in the data directory.''"
  by code_simp

section \<open>Writing a file\<close>








lemma DATA_DIR_update [simp]:
  "DATA_DIR (w\<lparr>rng_pos := p, files := fs\<rparr>) = DATA_DIR w"
  by (simp add: DATA_DIR_def)



section \<open>Confinement to the data directory\<close>





section \<open>Creating, then summarizing\<close>








end
